theory Spec2Isabelle
  imports Main "HOL-Library.Word"
begin

unbundle bit_operations_syntax

section \<open>Data model\<close>

text \<open>
  A \<open>data_chunk\<close> is a \<open>std::vector\<close> of bytes: index 0 is \<open>front()\<close>, the last element
  is \<open>back()\<close>, \<open>push_back\<close> appends at the end.
\<close>

type_synonym byte = "8 word"
type_synonym data_chunk = "byte list"

text \<open>
  \<open>enum class opcode\<close> has the underlying type \<open>int\<close>, and \<open>parse_script\<close> fills it
  with \<open>static_cast<opcode>(raw_byte)\<close> for any byte, so an opcode is a number that may
  or may not be one of the enumerators.
\<close>

type_synonym opcode = nat

record operation =
  code :: opcode
  data :: data_chunk

section \<open>Opcodes\<close>

text \<open>
  Modelled from the spec: the enumerators of \<open>enum class opcode\<close>. The enumeration is
  declared in \<open>bitcoin/script.hpp\<close>, which is not among the sources; only its uses are.
  The spec gives the bytes of the push opcodes (\<open>zero\<close> is byte 0, \<open>special\<close> stands
  for the direct pushes 1..75, \<open>pushdata1/2/4\<close> follow at 76..78); the other opcodes of
  the script language carry the byte that the language assigns to them, which is what
  the \<open>static_cast\<close>s of \<open>parse_script\<close> and \<open>save_script\<close> rely on (\<open>op_1\<close> to
  \<open>op_16\<close> are 81..96, and so on up to \<open>op_nop10 = 185\<close>). The two markers
  \<open>bad_operation\<close> and \<open>raw_data\<close> are no opcodes of the script language, and
  neither the sources nor the spec give them a number: \<open>bad_operation\<close> only stands in
  assertions, and \<open>raw_data\<close> is a parameter of the one function whose result depends
  on it (\<open>save_script\<close>). \<open>opcode::if_\<close>, \<open>opcode::else_\<close> and \<open>opcode::not_\<close> are
  written without the underscore.
\<close>

abbreviation (input) opcode_zero :: opcode where "opcode_zero \<equiv> 0"
abbreviation (input) opcode_special :: opcode where "opcode_special \<equiv> 1"
abbreviation (input) opcode_pushdata1 :: opcode where "opcode_pushdata1 \<equiv> 76"
abbreviation (input) opcode_pushdata2 :: opcode where "opcode_pushdata2 \<equiv> 77"
abbreviation (input) opcode_pushdata4 :: opcode where "opcode_pushdata4 \<equiv> 78"
abbreviation (input) opcode_negative_1 :: opcode where "opcode_negative_1 \<equiv> 79"
abbreviation (input) opcode_reserved :: opcode where "opcode_reserved \<equiv> 80"
abbreviation (input) opcode_op_1 :: opcode where "opcode_op_1 \<equiv> 81"
abbreviation (input) opcode_op_2 :: opcode where "opcode_op_2 \<equiv> 82"
abbreviation (input) opcode_op_3 :: opcode where "opcode_op_3 \<equiv> 83"
abbreviation (input) opcode_op_4 :: opcode where "opcode_op_4 \<equiv> 84"
abbreviation (input) opcode_op_5 :: opcode where "opcode_op_5 \<equiv> 85"
abbreviation (input) opcode_op_6 :: opcode where "opcode_op_6 \<equiv> 86"
abbreviation (input) opcode_op_7 :: opcode where "opcode_op_7 \<equiv> 87"
abbreviation (input) opcode_op_8 :: opcode where "opcode_op_8 \<equiv> 88"
abbreviation (input) opcode_op_9 :: opcode where "opcode_op_9 \<equiv> 89"
abbreviation (input) opcode_op_10 :: opcode where "opcode_op_10 \<equiv> 90"
abbreviation (input) opcode_op_11 :: opcode where "opcode_op_11 \<equiv> 91"
abbreviation (input) opcode_op_12 :: opcode where "opcode_op_12 \<equiv> 92"
abbreviation (input) opcode_op_13 :: opcode where "opcode_op_13 \<equiv> 93"
abbreviation (input) opcode_op_14 :: opcode where "opcode_op_14 \<equiv> 94"
abbreviation (input) opcode_op_15 :: opcode where "opcode_op_15 \<equiv> 95"
abbreviation (input) opcode_op_16 :: opcode where "opcode_op_16 \<equiv> 96"
abbreviation (input) opcode_nop :: opcode where "opcode_nop \<equiv> 97"
abbreviation (input) opcode_ver :: opcode where "opcode_ver \<equiv> 98"
abbreviation (input) opcode_if :: opcode where "opcode_if \<equiv> 99"
abbreviation (input) opcode_notif :: opcode where "opcode_notif \<equiv> 100"
abbreviation (input) opcode_verif :: opcode where "opcode_verif \<equiv> 101"
abbreviation (input) opcode_vernotif :: opcode where "opcode_vernotif \<equiv> 102"
abbreviation (input) opcode_else :: opcode where "opcode_else \<equiv> 103"
abbreviation (input) opcode_endif :: opcode where "opcode_endif \<equiv> 104"
abbreviation (input) opcode_verify :: opcode where "opcode_verify \<equiv> 105"
abbreviation (input) opcode_toaltstack :: opcode where "opcode_toaltstack \<equiv> 107"
abbreviation (input) opcode_fromaltstack :: opcode where "opcode_fromaltstack \<equiv> 108"
abbreviation (input) opcode_ifdup :: opcode where "opcode_ifdup \<equiv> 115"
abbreviation (input) opcode_depth :: opcode where "opcode_depth \<equiv> 116"
abbreviation (input) opcode_drop :: opcode where "opcode_drop \<equiv> 117"
abbreviation (input) opcode_dup :: opcode where "opcode_dup \<equiv> 118"
abbreviation (input) opcode_nip :: opcode where "opcode_nip \<equiv> 119"
abbreviation (input) opcode_over :: opcode where "opcode_over \<equiv> 120"
abbreviation (input) opcode_pick :: opcode where "opcode_pick \<equiv> 121"
abbreviation (input) opcode_roll :: opcode where "opcode_roll \<equiv> 122"
abbreviation (input) opcode_size :: opcode where "opcode_size \<equiv> 130"
abbreviation (input) opcode_equal :: opcode where "opcode_equal \<equiv> 135"
abbreviation (input) opcode_equalverify :: opcode where "opcode_equalverify \<equiv> 136"
abbreviation (input) opcode_reserved1 :: opcode where "opcode_reserved1 \<equiv> 137"
abbreviation (input) opcode_reserved2 :: opcode where "opcode_reserved2 \<equiv> 138"
abbreviation (input) opcode_not :: opcode where "opcode_not \<equiv> 145"
abbreviation (input) opcode_add :: opcode where "opcode_add \<equiv> 147"
abbreviation (input) opcode_boolor :: opcode where "opcode_boolor \<equiv> 155"
abbreviation (input) opcode_greaterthanorequal :: opcode where "opcode_greaterthanorequal \<equiv> 162"
abbreviation (input) opcode_min :: opcode where "opcode_min \<equiv> 163"
abbreviation (input) opcode_sha256 :: opcode where "opcode_sha256 \<equiv> 168"
abbreviation (input) opcode_hash160 :: opcode where "opcode_hash160 \<equiv> 169"
abbreviation (input) opcode_codeseparator :: opcode where "opcode_codeseparator \<equiv> 171"
abbreviation (input) opcode_checksig :: opcode where "opcode_checksig \<equiv> 172"
abbreviation (input) opcode_checksigverify :: opcode where "opcode_checksigverify \<equiv> 173"
abbreviation (input) opcode_checkmultisig :: opcode where "opcode_checkmultisig \<equiv> 174"
abbreviation (input) opcode_checkmultisigverify :: opcode where "opcode_checkmultisigverify \<equiv> 175"
abbreviation (input) opcode_op_nop1 :: opcode where "opcode_op_nop1 \<equiv> 176"
abbreviation (input) opcode_op_nop2 :: opcode where "opcode_op_nop2 \<equiv> 177"
abbreviation (input) opcode_op_nop3 :: opcode where "opcode_op_nop3 \<equiv> 178"
abbreviation (input) opcode_op_nop4 :: opcode where "opcode_op_nop4 \<equiv> 179"
abbreviation (input) opcode_op_nop5 :: opcode where "opcode_op_nop5 \<equiv> 180"
abbreviation (input) opcode_op_nop6 :: opcode where "opcode_op_nop6 \<equiv> 181"
abbreviation (input) opcode_op_nop7 :: opcode where "opcode_op_nop7 \<equiv> 182"
abbreviation (input) opcode_op_nop8 :: opcode where "opcode_op_nop8 \<equiv> 183"
abbreviation (input) opcode_op_nop9 :: opcode where "opcode_op_nop9 \<equiv> 184"
abbreviation (input) opcode_op_nop10 :: opcode where "opcode_op_nop10 \<equiv> 185"

section \<open>Boolean cast of a stack item\<close>

text \<open>
  \<open>cast_to_bool\<close> walks the bytes from the front. At the first non-zero byte it answers:
  false when that byte is the last one and equals \<open>0x80\<close> (negative zero), true
  otherwise. When the loop ends without meeting a non-zero byte the answer is false.
\<close>

fun cast_to_bool :: "data_chunk \<Rightarrow> bool" where
  "cast_to_bool [] = False"
| "cast_to_bool (v # vs) =
     (if v \<noteq> 0 then (if vs = [] \<and> v = 0x80 then False else True)
      else cast_to_bool vs)"

section \<open>Faults\<close>

text \<open>
  What C++ leaves undefined is a value of the model: dereferencing an iterator at or past
  \<open>end()\<close>, \<open>operator[]\<close> beyond the size and \<open>back()\<close> of an empty vector are the
  fault \<open>Out_of_range\<close>. A function that can reach one returns \<open>fault + 'a\<close>.
\<close>

datatype fault = Out_of_range

section \<open>Script serializer\<close>

text \<open>
  Modelled from the spec: \<open>cast_chunk<T>\<close> and \<open>uncast_type<T>\<close> of
  \<open>bitcoin/format.hpp\<close> (not among the sources) read and write an unsigned integer of
  the width of \<open>T\<close> in little-endian byte order. \<open>uncast_type w v\<close> writes the low
  \<open>w\<close> bytes of \<open>v\<close>, which is the conversion of a \<open>size_t\<close> to the narrower type.
\<close>

fun cast_chunk :: "data_chunk \<Rightarrow> nat" where
  "cast_chunk [] = 0"
| "cast_chunk (b # bs) = unat b + 256 * cast_chunk bs"

fun uncast_type :: "nat \<Rightarrow> nat \<Rightarrow> data_chunk" where
  "uncast_type 0 v = []"
| "uncast_type (Suc w) v = of_nat (v mod 256) # uncast_type w (v div 256)"

text \<open>
  The parser's iterator \<open>it\<close> points at the byte being read; the model carries the bytes
  after it (\<open>rest\<close>). \<open>++it; *it\<close> takes the head of \<open>rest\<close>, and is a fault when \<open>rest\<close>
  is empty: \<open>read_back_from_iterator\<close> and the \<open>pushdata1\<close> case of
  \<open>number_of_bytes_from_opcode\<close> do not compare the iterator with the end.
\<close>

fun read_back_from_iterator :: "data_chunk \<Rightarrow> nat \<Rightarrow> fault + (data_chunk \<times> data_chunk)" where
  "read_back_from_iterator rest 0 = Inr ([], rest)"
| "read_back_from_iterator [] (Suc n) = Inl Out_of_range"
| "read_back_from_iterator (b # rest) (Suc n) =
     (case read_back_from_iterator rest n of
        Inl f \<Rightarrow> Inl f
      | Inr (number_bytes, rest') \<Rightarrow> Inr (b # number_bytes, rest'))"

definition number_of_bytes_from_opcode ::
  "opcode \<Rightarrow> byte \<Rightarrow> data_chunk \<Rightarrow> fault + (nat option \<times> data_chunk)" where
  "number_of_bytes_from_opcode c raw_byte rest =
     (if c = opcode_zero \<or> c = opcode_special then Inr (Some (unat raw_byte), rest)
      else if c = opcode_pushdata1 then
        (case rest of [] \<Rightarrow> Inl Out_of_range | b # rest' \<Rightarrow> Inr (Some (unat b), rest'))
      else if c = opcode_pushdata2 then
        (case read_back_from_iterator rest 2 of
           Inl f \<Rightarrow> Inl f
         | Inr (number_bytes, rest') \<Rightarrow> Inr (Some (cast_chunk number_bytes), rest'))
      else if c = opcode_pushdata4 then
        (case read_back_from_iterator rest 4 of
           Inl f \<Rightarrow> Inl f
         | Inr (number_bytes, rest') \<Rightarrow> Inr (Some (cast_chunk number_bytes), rest'))
      else Inr (None, rest))"

text \<open>
  \<open>read_push_data\<close> does compare with the end: \<open>None\<close> is its \<open>return false\<close>
  ("Premature end of script"), \<open>Some (op_data, rest')\<close> its \<open>return true\<close>.
\<close>

fun read_push_data :: "data_chunk \<Rightarrow> nat \<Rightarrow> (data_chunk \<times> data_chunk) option" where
  "read_push_data rest 0 = Some ([], rest)"
| "read_push_data [] (Suc n) = None"
| "read_push_data (b # rest) (Suc n) =
     (case read_push_data rest n of
        None \<Rightarrow> None
      | Some (op_data, rest') \<Rightarrow> Some (b # op_data, rest'))"

text \<open>
  The body of the loop of \<open>parse_script\<close> for one operation: a fault, \<open>None\<close> where
  the source returns the empty \<open>script()\<close>, or the operation and the bytes after it.
\<close>

definition parse_operation ::
  "byte \<Rightarrow> data_chunk \<Rightarrow> fault + ((operation \<times> data_chunk) option)" where
  "parse_operation raw_byte rest =
     (let c = (if raw_byte = 0 then opcode_zero
               else if 0 < raw_byte \<and> raw_byte \<le> 75 then opcode_special
               else unat raw_byte)
      in case number_of_bytes_from_opcode c raw_byte rest of
           Inl f \<Rightarrow> Inl f
         | Inr (read_n_bytes, rest') \<Rightarrow>
             (case read_n_bytes of
                None \<Rightarrow> Inr (Some (\<lparr>code = c, data = []\<rparr>, rest'))
              | Some n \<Rightarrow>
                  if n \<noteq> 0 then
                    (case read_push_data rest' n of
                       None \<Rightarrow> Inr None
                     | Some (op_data, rest'') \<Rightarrow> Inr (Some (\<lparr>code = c, data = op_data\<rparr>, rest'')))
                  else Inr (Some (\<lparr>code = c, data = []\<rparr>, rest'))))"

lemma read_back_from_iterator_length:
  "read_back_from_iterator rest n = Inr (bs, rest') \<Longrightarrow>
     length bs = n \<and> rest = bs @ rest'"
  by (induction rest n arbitrary: bs rest' rule: read_back_from_iterator.induct)
     (auto split: sum.splits)

lemma read_push_data_eq:
  "read_push_data rest n =
     (if length rest < n then None else Some (take n rest, drop n rest))"
  by (induction rest n rule: read_push_data.induct) auto

lemma parse_operation_shorter:
  "parse_operation raw_byte rest = Inr (Some (oper, rest')) \<Longrightarrow> length rest' \<le> length rest"
  by (auto simp: parse_operation_def number_of_bytes_from_opcode_def read_push_data_eq Let_def
           dest!: read_back_from_iterator_length
           split: if_splits sum.splits option.splits list.splits prod.splits)

function parse_loop :: "data_chunk \<Rightarrow> operation list \<Rightarrow> fault + operation list" where
  "parse_loop [] script_object = Inr script_object"
| "parse_loop (raw_byte # rest) script_object =
     (case parse_operation raw_byte rest of
        Inl f \<Rightarrow> Inl f
      | Inr None \<Rightarrow> Inr []
      | Inr (Some (oper, rest')) \<Rightarrow> parse_loop rest' (script_object @ [oper]))"
  by pat_completeness auto
termination
  by (relation "measure (\<lambda>(raw, script_object). length raw)")
     (auto dest: parse_operation_shorter)

definition parse_script :: "data_chunk \<Rightarrow> fault + operation list" where
  "parse_script raw_script = parse_loop raw_script []"

definition operation_metadata :: "opcode \<Rightarrow> nat \<Rightarrow> data_chunk" where
  "operation_metadata c data_size =
     (if c = opcode_pushdata1 then uncast_type 1 data_size
      else if c = opcode_pushdata2 then uncast_type 2 data_size
      else if c = opcode_pushdata4 then uncast_type 4 data_size
      else [])"

text \<open>The bytes that the loop of \<open>save_script\<close> appends for one operation.\<close>

definition save_operation :: "operation \<Rightarrow> data_chunk" where
  "save_operation oper =
     (let raw_byte = (if code oper = opcode_special then of_nat (length (data oper))
                      else of_nat (code oper) :: byte)
      in raw_byte # operation_metadata (code oper) (length (data oper)) @ data oper)"

text \<open>
  \<open>save_script\<close> compares the code of the first operation with \<open>opcode::raw_data\<close>. The
  value of that enumerator is the parameter \<open>raw_data\<close>.
\<close>

definition save_script :: "opcode \<Rightarrow> operation list \<Rightarrow> data_chunk" where
  "save_script raw_data ops =
     (if ops = [] then []
      else if code (ops ! 0) = raw_data then data (ops ! 0)
      else concat (map save_operation ops))"

section \<open>Numbers on the stack\<close>

text \<open>
  Modelled from the spec: \<open>big_number\<close> (\<open>bitcoin/util/big_number.hpp\<close>, not among the
  sources) is an arbitrary-precision signed integer, here an \<open>int\<close>. \<open>data()\<close> is its
  canonical minimal little-endian encoding with the sign in the top bit of the last byte
  (zero is the empty chunk; a byte is appended when the top bit of the magnitude is
  taken), \<open>set_data\<close> reads that encoding, and \<open>uint32()\<close> reads the magnitude. The
  numbers that reach \<open>uint32()\<close> come from at most 4 bytes, so the magnitude fits.
\<close>

type_synonym big_number = int

fun le_magnitude :: "nat \<Rightarrow> data_chunk" where
  "le_magnitude n = (if n = 0 then [] else of_nat (n mod 256) # le_magnitude (n div 256))"

declare le_magnitude.simps [simp del]

definition big_number_data :: "big_number \<Rightarrow> data_chunk" where
  "big_number_data n =
     (if n = 0 then []
      else let m = le_magnitude (nat \<bar>n\<bar>) in
        if last m AND 0x80 \<noteq> 0 then m @ [if n < 0 then 0x80 else 0]
        else if n < 0 then butlast m @ [last m OR 0x80]
        else m)"

definition big_number_set_data :: "data_chunk \<Rightarrow> big_number" where
  "big_number_set_data raw =
     (if raw = [] then 0
      else let magnitude = int (cast_chunk (butlast raw @ [last raw AND 0x7f])) in
        if last raw AND 0x80 \<noteq> 0 then - magnitude else magnitude)"

definition big_number_uint32 :: "big_number \<Rightarrow> nat" where
  "big_number_uint32 n = nat \<bar>n\<bar> mod 2 ^ 32"

definition cast_to_big_number :: "data_chunk \<Rightarrow> big_number option" where
  "cast_to_big_number raw_number =
     (if length raw_number > 4 then None
      else Some (big_number_set_data (big_number_data (big_number_set_data raw_number))))"

definition stack_true_value :: data_chunk where
  "stack_true_value = [1]"

definition stack_false_value :: data_chunk where
  "stack_false_value = []"

section \<open>Transactions and collaborators\<close>

text \<open>
  The message types are declared in \<open>bitcoin/messages.hpp\<close> (not among the sources); the
  records carry the fields that \<open>script.cpp\<close> reads and writes. A script stored in a
  transaction is its operation sequence. \<open>output_value\<close> is the field \<open>value\<close>.
\<close>

record transaction_input =
  previous_output :: "data_chunk \<times> 32 word"
  input_script :: "operation list"
  sequence :: "32 word"

record transaction_output =
  output_value :: "64 word"
  output_script :: "operation list"

record transaction =
  version :: "32 word"
  locktime :: "32 word"
  inputs :: "transaction_input list"
  outputs :: "transaction_output list"

type_synonym hash_digest = data_chunk

text \<open>
  The primitives that \<open>script.cpp\<close> calls and does not define are parameters:
  \<open>hash_transaction\<close>, the two methods of \<open>elliptic_curve_key\<close> (\<open>verify\<close> takes the key
  that \<open>set_public_key\<close> accepted, the digest and the signature), \<open>SHA256\<close> and
  \<open>generate_ripemd_hash\<close>.
\<close>

record collaborators =
  hash_transaction :: "transaction \<Rightarrow> 32 word \<Rightarrow> hash_digest"
  set_public_key :: "data_chunk \<Rightarrow> bool"
  verify :: "data_chunk \<Rightarrow> hash_digest \<Rightarrow> data_chunk \<Rightarrow> bool"
  SHA256 :: "data_chunk \<Rightarrow> data_chunk"
  generate_ripemd_hash :: "data_chunk \<Rightarrow> data_chunk"

definition null_hash :: hash_digest where
  "null_hash = replicate 32 0"

section \<open>Signature hash\<close>

text \<open>
  \<open>sighash::none = 2\<close>, \<open>sighash::single = 3\<close> and \<open>sighash::anyone_can_pay = 0x80\<close>
  are the values the spec gives.
\<close>

abbreviation (input) sighash_none :: "32 word" where "sighash_none \<equiv> 2"
abbreviation (input) sighash_single :: "32 word" where "sighash_single \<equiv> 3"
abbreviation (input) sighash_anyone_can_pay :: "32 word" where "sighash_anyone_can_pay \<equiv> 0x80"

definition nullify_input_sequences ::
  "transaction_input list \<Rightarrow> 32 word \<Rightarrow> transaction_input list" where
  "nullify_input_sequences ins except_input =
     map (\<lambda>(i, inp). if i \<noteq> unat except_input then inp\<lparr>sequence := 0\<rparr> else inp)
       (enumerate 0 ins)"

text \<open>
  \<open>BITCOIN_ASSERT\<close> (\<open>bitcoin/utility/assert.hpp\<close>, not among the sources) is a
  debugging macro that expands to nothing in a release build, and the function itself
  handles \<open>input_index \<ge> inputs.size()\<close> further down with a logged \<open>null_hash\<close>; the
  model follows the code that runs when the assertion is compiled out.

  The first stage is the \<open>none\<close>/\<open>single\<close> rewriting: \<open>None\<close> is the early
  \<open>return null_hash\<close>. \<open>resize (output_index + 1)\<close> is computed in 32 bits and, under
  its guard, never grows the vector.
\<close>

definition sighash_outputs :: "transaction \<Rightarrow> 32 word \<Rightarrow> 32 word \<Rightarrow> transaction option" where
  "sighash_outputs parent_tx input_index hash_type =
     (if hash_type AND 0x1f = sighash_none then
        Some (parent_tx\<lparr>outputs := [],
                        inputs := nullify_input_sequences (inputs parent_tx) input_index\<rparr>)
      else if hash_type AND 0x1f = sighash_single then
        (let output_index = input_index in
         if unat output_index \<ge> length (outputs parent_tx) then None
         else Some (parent_tx\<lparr>
           outputs := map (\<lambda>output. output\<lparr>output_value := NOT 0, output_script := []\<rparr>)
                        (take (unat (output_index + 1)) (outputs parent_tx)),
           inputs := nullify_input_sequences (inputs parent_tx) input_index\<rparr>))
      else Some parent_tx)"

text \<open>
  The second stage: \<open>inputs[0] = inputs[input_index]; inputs.resize(1)\<close>. Both
  subscripts are unchecked in the source.
\<close>

definition sighash_anyone_can_pay_inputs ::
  "transaction \<Rightarrow> 32 word \<Rightarrow> 32 word \<Rightarrow> fault + transaction" where
  "sighash_anyone_can_pay_inputs parent_tx input_index hash_type =
     (if hash_type AND sighash_anyone_can_pay \<noteq> 0 then
        (if unat input_index \<ge> length (inputs parent_tx) then Inl Out_of_range
         else Inr (parent_tx\<lparr>inputs :=
                     take 1 ((inputs parent_tx)[0 := inputs parent_tx ! unat input_index])\<rparr>))
      else Inr parent_tx)"

definition generate_signature_hash ::
  "collaborators \<Rightarrow> transaction \<Rightarrow> 32 word \<Rightarrow> operation list \<Rightarrow> 32 word \<Rightarrow> fault + hash_digest" where
  "generate_signature_hash E parent_tx input_index script_code hash_type =
     (case sighash_outputs parent_tx input_index hash_type of
        None \<Rightarrow> Inr null_hash
      | Some tx1 \<Rightarrow>
          (case sighash_anyone_can_pay_inputs tx1 input_index hash_type of
             Inl f \<Rightarrow> Inl f
           | Inr tx2 \<Rightarrow>
               if unat input_index \<ge> length (inputs tx2) then Inr null_hash
               else
                 (let blanked = map (\<lambda>inp. inp\<lparr>input_script := []\<rparr>) (inputs tx2);
                      tx_tmp = tx2\<lparr>inputs := blanked[unat input_index :=
                                 (blanked ! unat input_index)\<lparr>input_script := script_code\<rparr>]\<rparr>
                  in Inr (hash_transaction E tx_tmp hash_type))))"

text \<open>
  \<open>signature.back()\<close> is taken without a check for the empty signature.
\<close>

definition check_signature ::
  "collaborators \<Rightarrow> data_chunk \<Rightarrow> data_chunk \<Rightarrow> operation list \<Rightarrow> transaction \<Rightarrow> 32 word
     \<Rightarrow> fault + bool" where
  "check_signature E signature pubkey script_code parent_tx input_index =
     (if \<not> set_public_key E pubkey then Inr False
      else if signature = [] then Inl Out_of_range
      else
        (let hash_type = (ucast (last signature) :: 32 word);
             signature' = butlast signature
         in case generate_signature_hash E parent_tx input_index script_code hash_type of
              Inl f \<Rightarrow> Inl f
            | Inr tx_hash \<Rightarrow>
                if tx_hash = null_hash then Inr False
                else Inr (verify E pubkey tx_hash signature')))"

section \<open>Script state\<close>

text \<open>
  The run-time slots of \<open>class script\<close>. The stacks are vectors: the top is the last
  element. \<open>codehash_begin\<close> is an iterator into \<open>operations\<close>, here the index it
  points at.
\<close>

record script =
  operations :: "operation list"
  stack :: "data_chunk list"
  alternate_stack :: "data_chunk list"
  conditional_stack :: "bool list"
  codehash_begin :: nat

definition closed :: "bool list \<Rightarrow> bool" where
  "closed cs = (cs = [])"

definition has_failed_branches :: "bool list \<Rightarrow> bool" where
  "has_failed_branches cs = (count_list cs False > 0)"

text \<open>\<open>else_\<close> and \<open>close\<close> are only called on a conditional stack that is not closed.\<close>

definition conditional_else :: "bool list \<Rightarrow> bool list" where
  "conditional_else cs = butlast cs @ [\<not> last cs]"

definition conditional_close :: "bool list \<Rightarrow> bool list" where
  "conditional_close cs = butlast cs"

definition push_stack :: "data_chunk \<Rightarrow> script \<Rightarrow> script" where
  "push_stack v s = s\<lparr>stack := stack s @ [v]\<rparr>"

text \<open>\<open>pop_stack\<close>: every caller has checked the size of the stack before.\<close>

definition pop_stack :: "script \<Rightarrow> data_chunk \<times> script" where
  "pop_stack s = (last (stack s), s\<lparr>stack := butlast (stack s)\<rparr>)"

definition is_push_only :: "operation list \<Rightarrow> bool" where
  "is_push_only ops =
     list_all (\<lambda>oper.
        code oper = opcode_zero \<or> code oper = opcode_special \<or> code oper = opcode_pushdata1
      \<or> code oper = opcode_pushdata2 \<or> code oper = opcode_pushdata4
      \<or> code oper = opcode_negative_1
      \<or> code oper = opcode_op_1 \<or> code oper = opcode_op_2 \<or> code oper = opcode_op_3
      \<or> code oper = opcode_op_4 \<or> code oper = opcode_op_5 \<or> code oper = opcode_op_6
      \<or> code oper = opcode_op_7 \<or> code oper = opcode_op_8 \<or> code oper = opcode_op_9
      \<or> code oper = opcode_op_10 \<or> code oper = opcode_op_11 \<or> code oper = opcode_op_12
      \<or> code oper = opcode_op_13 \<or> code oper = opcode_op_14 \<or> code oper = opcode_op_15
      \<or> code oper = opcode_op_16) ops"

definition opcode_is_disabled :: "opcode \<Rightarrow> bool" where
  "opcode_is_disabled c = False"

definition is_condition_opcode :: "opcode \<Rightarrow> bool" where
  "is_condition_opcode c =
     (c = opcode_if \<or> c = opcode_notif \<or> c = opcode_else \<or> c = opcode_endif)"

section \<open>Operations without signatures\<close>

text \<open>
  Each \<open>op_...\<close> returns the \<open>bool\<close> of the source and the state it leaves, also on
  \<open>false\<close> (a failed second cast of \<open>arithmetic_start\<close> has popped the first operand).
\<close>

definition arithmetic_start :: "script \<Rightarrow> (big_number \<times> big_number) option \<times> script" where
  "arithmetic_start s =
     (if length (stack s) < 2 then (None, s)
      else
        (let (raw_a, s1) = pop_stack s in
         case cast_to_big_number raw_a of
           None \<Rightarrow> (None, s1)
         | Some number_a \<Rightarrow>
             (let (raw_b, s2) = pop_stack s1 in
              case cast_to_big_number raw_b of
                None \<Rightarrow> (None, s2)
              | Some number_b \<Rightarrow> (Some (number_a, number_b), s2))))"

definition op_negative_1 :: "script \<Rightarrow> bool \<times> script" where
  "op_negative_1 s = (True, push_stack (big_number_data (- 1)) s)"

definition op_x :: "opcode \<Rightarrow> script \<Rightarrow> bool \<times> script" where
  "op_x c s =
     (let value_diff = (of_nat c :: byte) - of_nat opcode_op_1 + 1
      in (True, push_stack (big_number_data (uint value_diff)) s))"

definition op_if :: "script \<Rightarrow> bool \<times> script" where
  "op_if s =
     (if \<not> has_failed_branches (conditional_stack s) then
        (if length (stack s) < 1 then (False, s)
         else
           (let (v, s1) = pop_stack s
            in (True, s1\<lparr>conditional_stack := conditional_stack s1 @ [cast_to_bool v]\<rparr>)))
      else (True, s\<lparr>conditional_stack := conditional_stack s @ [False]\<rparr>))"

definition op_notif :: "script \<Rightarrow> bool \<times> script" where
  "op_notif s =
     (case op_if s of
        (False, s1) \<Rightarrow> (False, s1)
      | (True, s1) \<Rightarrow>
          (True, s1\<lparr>conditional_stack := conditional_else (conditional_stack s1)\<rparr>))"

definition op_else :: "script \<Rightarrow> bool \<times> script" where
  "op_else s =
     (if closed (conditional_stack s) then (False, s)
      else (True, s\<lparr>conditional_stack := conditional_else (conditional_stack s)\<rparr>))"

definition op_endif :: "script \<Rightarrow> bool \<times> script" where
  "op_endif s =
     (if closed (conditional_stack s) then (False, s)
      else (True, s\<lparr>conditional_stack := conditional_close (conditional_stack s)\<rparr>))"

definition op_verify :: "script \<Rightarrow> bool \<times> script" where
  "op_verify s =
     (if length (stack s) < 1 then (False, s)
      else if \<not> cast_to_bool (last (stack s)) then (False, s)
      else (True, snd (pop_stack s)))"

definition op_toaltstack :: "script \<Rightarrow> bool \<times> script" where
  "op_toaltstack s =
     (if length (stack s) < 1 then (False, s)
      else
        (let (move_data, s1) = pop_stack s
         in (True, s1\<lparr>alternate_stack := alternate_stack s1 @ [move_data]\<rparr>)))"

definition op_fromaltstack :: "script \<Rightarrow> bool \<times> script" where
  "op_fromaltstack s =
     (if length (alternate_stack s) < 1 then (False, s)
      else (True, (push_stack (last (alternate_stack s)) s)
                    \<lparr>alternate_stack := butlast (alternate_stack s)\<rparr>))"

definition op_ifdup :: "script \<Rightarrow> bool \<times> script" where
  "op_ifdup s =
     (if length (stack s) < 1 then (False, s)
      else if cast_to_bool (last (stack s)) then (True, push_stack (last (stack s)) s)
      else (True, s))"

definition op_depth :: "script \<Rightarrow> bool \<times> script" where
  "op_depth s = (True, push_stack (big_number_data (int (length (stack s)))) s)"

definition op_drop :: "script \<Rightarrow> bool \<times> script" where
  "op_drop s =
     (if length (stack s) < 1 then (False, s) else (True, s\<lparr>stack := butlast (stack s)\<rparr>))"

definition op_dup :: "script \<Rightarrow> bool \<times> script" where
  "op_dup s =
     (if length (stack s) < 1 then (False, s) else (True, push_stack (last (stack s)) s))"

definition op_nip :: "script \<Rightarrow> bool \<times> script" where
  "op_nip s =
     (if length (stack s) < 2 then (False, s)
      else (True, s\<lparr>stack := take (length (stack s) - 2) (stack s) @ [last (stack s)]\<rparr>))"

definition op_over :: "script \<Rightarrow> bool \<times> script" where
  "op_over s =
     (if length (stack s) < 2 then (False, s)
      else (True, push_stack (stack s ! (length (stack s) - 2)) s))"

definition pick_roll_impl :: "data_chunk list \<Rightarrow> bool \<Rightarrow> bool \<times> data_chunk list" where
  "pick_roll_impl stk is_roll =
     (if length stk < 2 then (False, stk)
      else
        (case cast_to_big_number (last stk) of
           None \<Rightarrow> (False, stk)
         | Some number_n \<Rightarrow>
             (let stk1 = butlast stk; n = big_number_uint32 number_n in
              if n \<ge> length stk1 then (False, stk1)
              else
                (let slice = length stk1 - n - 1; item = stk1 ! slice;
                     stk2 = (if is_roll then take slice stk1 @ drop (Suc slice) stk1 else stk1)
                 in (True, stk2 @ [item])))))"

definition op_pick :: "script \<Rightarrow> bool \<times> script" where
  "op_pick s = (let (r, stk) = pick_roll_impl (stack s) False in (r, s\<lparr>stack := stk\<rparr>))"

definition op_roll :: "script \<Rightarrow> bool \<times> script" where
  "op_roll s = (let (r, stk) = pick_roll_impl (stack s) True in (r, s\<lparr>stack := stk\<rparr>))"

definition op_size :: "script \<Rightarrow> bool \<times> script" where
  "op_size s =
     (if length (stack s) < 1 then (False, s)
      else (True, push_stack (big_number_data (int (length (last (stack s))))) s))"

definition op_not :: "script \<Rightarrow> bool \<times> script" where
  "op_not s =
     (if length (stack s) < 1 then (False, s)
      else
        (let (raw, s1) = pop_stack s in
         case cast_to_big_number raw of
           None \<Rightarrow> (False, s1)
         | Some number_n \<Rightarrow>
             (True, push_stack (big_number_data (if number_n = 0 then 1 else 0)) s1)))"

definition op_boolor :: "script \<Rightarrow> bool \<times> script" where
  "op_boolor s =
     (case arithmetic_start s of
        (None, s1) \<Rightarrow> (False, s1)
      | (Some (number_a, number_b), s1) \<Rightarrow>
          (True, push_stack
             (big_number_data (if number_a \<noteq> 0 \<or> number_b \<noteq> 0 then 1 else 0)) s1))"

definition op_min :: "script \<Rightarrow> bool \<times> script" where
  "op_min s =
     (case arithmetic_start s of
        (None, s1) \<Rightarrow> (False, s1)
      | (Some (number_a, number_b), s1) \<Rightarrow>
          (if number_a < number_b then (True, push_stack (big_number_data number_a) s1)
           else (True, push_stack (big_number_data number_b) s1)))"

definition op_sha256 :: "collaborators \<Rightarrow> script \<Rightarrow> bool \<times> script" where
  "op_sha256 E s =
     (if length (stack s) < 1 then (False, s)
      else (let (d, s1) = pop_stack s in (True, push_stack (SHA256 E d) s1)))"

definition op_hash160 :: "collaborators \<Rightarrow> script \<Rightarrow> bool \<times> script" where
  "op_hash160 E s =
     (if length (stack s) < 1 then (False, s)
      else (let (d, s1) = pop_stack s in (True, push_stack (generate_ripemd_hash E d) s1)))"

definition op_equal :: "script \<Rightarrow> bool \<times> script" where
  "op_equal s =
     (if length (stack s) < 2 then (False, s)
      else
        (let (x, s1) = pop_stack s; (y, s2) = pop_stack s1 in
         if x = y then (True, push_stack stack_true_value s2)
         else (True, push_stack stack_false_value s2)))"

definition op_equalverify :: "script \<Rightarrow> bool \<times> script" where
  "op_equalverify s =
     (if length (stack s) < 2 then (False, s)
      else (let (x, s1) = pop_stack s; (y, s2) = pop_stack s1 in (x = y, s2)))"

definition op_add :: "script \<Rightarrow> bool \<times> script" where
  "op_add s =
     (case arithmetic_start s of
        (None, s1) \<Rightarrow> (False, s1)
      | (Some (number_a, number_b), s1) \<Rightarrow>
          (True, push_stack (big_number_data (number_a + number_b)) s1))"

definition op_greaterthanorequal :: "script \<Rightarrow> bool \<times> script" where
  "op_greaterthanorequal s =
     (case arithmetic_start s of
        (None, s1) \<Rightarrow> (False, s1)
      | (Some (number_a, number_b), s1) \<Rightarrow>
          (True, push_stack (big_number_data (if number_a \<ge> number_b then 1 else 0)) s1))"

section \<open>Signature operations\<close>

definition op_checksigverify ::
  "collaborators \<Rightarrow> transaction \<Rightarrow> 32 word \<Rightarrow> script \<Rightarrow> fault + (bool \<times> script)" where
  "op_checksigverify E parent_tx input_index s =
     (if length (stack s) < 2 then Inr (False, s)
      else
        (let (pubkey, s1) = pop_stack s; (signature, s2) = pop_stack s1;
             script_code =
               filter (\<lambda>oper. \<not> (data oper = signature \<or> code oper = opcode_codeseparator))
                 (drop (codehash_begin s) (operations s))
         in case check_signature E signature pubkey script_code parent_tx input_index of
              Inl f \<Rightarrow> Inl f
            | Inr r \<Rightarrow> Inr (r, s2)))"

definition op_checksig ::
  "collaborators \<Rightarrow> transaction \<Rightarrow> 32 word \<Rightarrow> script \<Rightarrow> fault + (bool \<times> script)" where
  "op_checksig E parent_tx input_index s =
     (case op_checksigverify E parent_tx input_index s of
        Inl f \<Rightarrow> Inl f
      | Inr (True, s1) \<Rightarrow> Inr (True, push_stack stack_true_value s1)
      | Inr (False, s1) \<Rightarrow> Inr (True, push_stack stack_false_value s1))"

text \<open>
  \<open>read_section\<close>: \<open>None\<close> is \<open>return false\<close>. The items are appended to the section
  in the order they are popped, the top of the stack first.
\<close>

definition read_section :: "script \<Rightarrow> data_chunk list option \<times> script" where
  "read_section s =
     (if stack s = [] then (None, s)
      else
        (let (raw_count, s1) = pop_stack s in
         case cast_to_big_number raw_count of
           None \<Rightarrow> (None, s1)
         | Some count_big_num \<Rightarrow>
             (let count = big_number_uint32 count_big_num in
              if length (stack s1) < count then (None, s1)
              else (Some (take count (rev (stack s1))),
                    s1\<lparr>stack := take (length (stack s1) - count) (stack s1)\<rparr>))))"

text \<open>
  The inner loop of \<open>op_checkmultisigverify\<close> for one signature. The iterator
  \<open>pubkey_iter\<close> is the list of the public keys from its position to the end; it is
  dereferenced before it is compared with \<open>pubkeys.end()\<close>, so an empty list is a fault.
  \<open>Some\<close> carries the new \<open>pubkey_current\<close>, \<open>None\<close> is \<open>return false\<close>.
\<close>

fun scan_pubkeys ::
  "(data_chunk \<Rightarrow> fault + bool) \<Rightarrow> data_chunk list \<Rightarrow> fault + (data_chunk list option)" where
  "scan_pubkeys chk [] = Inl Out_of_range"
| "scan_pubkeys chk (pubkey # later) =
     (case chk pubkey of
        Inl f \<Rightarrow> Inl f
      | Inr True \<Rightarrow> Inr (Some (pubkey # later))
      | Inr False \<Rightarrow> if later = [] then Inr None else scan_pubkeys chk later)"

fun match_signatures ::
  "(data_chunk \<Rightarrow> data_chunk \<Rightarrow> fault + bool) \<Rightarrow> data_chunk list \<Rightarrow> data_chunk list
     \<Rightarrow> fault + bool" where
  "match_signatures chk [] pubkey_current = Inr True"
| "match_signatures chk (signature # signatures) pubkey_current =
     (case scan_pubkeys (chk signature) pubkey_current of
        Inl f \<Rightarrow> Inl f
      | Inr None \<Rightarrow> Inr False
      | Inr (Some pubkey_iter) \<Rightarrow> match_signatures chk signatures pubkey_iter)"

definition op_checkmultisigverify ::
  "collaborators \<Rightarrow> transaction \<Rightarrow> 32 word \<Rightarrow> script \<Rightarrow> fault + (bool \<times> script)" where
  "op_checkmultisigverify E parent_tx input_index s =
     (case read_section s of
        (None, s1) \<Rightarrow> Inr (False, s1)
      | (Some pubkeys, s1) \<Rightarrow>
          (case read_section s1 of
             (None, s2) \<Rightarrow> Inr (False, s2)
           | (Some signatures, s2) \<Rightarrow>
               (let script_code =
                      filter (\<lambda>oper. \<not> (code oper = opcode_codeseparator
                                          \<or> data oper \<in> set signatures))
                        (drop (codehash_begin s) (operations s))
                in case match_signatures
                          (\<lambda>signature pubkey.
                             check_signature E signature pubkey script_code parent_tx input_index)
                          signatures pubkeys of
                     Inl f \<Rightarrow> Inl f
                   | Inr r \<Rightarrow> Inr (r, s2))))"

definition op_checkmultisig ::
  "collaborators \<Rightarrow> transaction \<Rightarrow> 32 word \<Rightarrow> script \<Rightarrow> fault + (bool \<times> script)" where
  "op_checkmultisig E parent_tx input_index s =
     (case op_checkmultisigverify E parent_tx input_index s of
        Inl f \<Rightarrow> Inl f
      | Inr (True, s1) \<Rightarrow> Inr (True, push_stack stack_true_value s1)
      | Inr (False, s1) \<Rightarrow> Inr (True, push_stack stack_false_value s1))"

section \<open>Dispatcher and runs\<close>

text \<open>
  The \<open>switch\<close> of \<open>run_operation\<close>. The cases of the push opcodes and of
  \<open>codeseparator\<close> hold an assertion and \<open>return true\<close>; \<open>next_step\<close> never sends them
  there. An opcode with no case takes the \<open>default\<close> and fails, and so does the case
  of \<open>raw_data\<close>, which therefore has no branch of its own here.
\<close>

definition run_operation ::
  "collaborators \<Rightarrow> operation \<Rightarrow> transaction \<Rightarrow> 32 word \<Rightarrow> script \<Rightarrow> fault + (bool \<times> script)" where
  "run_operation E oper parent_tx input_index s =
     (let c = code oper in
      if c = opcode_zero \<or> c = opcode_special \<or> c = opcode_pushdata1
         \<or> c = opcode_pushdata2 \<or> c = opcode_pushdata4 then Inr (True, s)
      else if c = opcode_negative_1 then Inr (op_negative_1 s)
      else if c = opcode_reserved then Inr (False, s)
      else if opcode_op_1 \<le> c \<and> c \<le> opcode_op_16 then Inr (op_x c s)
      else if c = opcode_nop then Inr (True, s)
      else if c = opcode_ver then Inr (False, s)
      else if c = opcode_if then Inr (op_if s)
      else if c = opcode_notif then Inr (op_notif s)
      else if c = opcode_verif \<or> c = opcode_vernotif then Inr (False, s)
      else if c = opcode_else then Inr (op_else s)
      else if c = opcode_endif then Inr (op_endif s)
      else if c = opcode_verify then Inr (op_verify s)
      else if c = opcode_toaltstack then Inr (op_toaltstack s)
      else if c = opcode_fromaltstack then Inr (op_fromaltstack s)
      else if c = opcode_ifdup then Inr (op_ifdup s)
      else if c = opcode_depth then Inr (op_depth s)
      else if c = opcode_drop then Inr (op_drop s)
      else if c = opcode_dup then Inr (op_dup s)
      else if c = opcode_nip then Inr (op_nip s)
      else if c = opcode_over then Inr (op_over s)
      else if c = opcode_pick then Inr (op_pick s)
      else if c = opcode_roll then Inr (op_roll s)
      else if c = opcode_size then Inr (op_size s)
      else if c = opcode_reserved1 \<or> c = opcode_reserved2 then Inr (False, s)
      else if c = opcode_not then Inr (op_not s)
      else if c = opcode_boolor then Inr (op_boolor s)
      else if c = opcode_min then Inr (op_min s)
      else if c = opcode_sha256 then Inr (op_sha256 E s)
      else if c = opcode_hash160 then Inr (op_hash160 E s)
      else if c = opcode_equal then Inr (op_equal s)
      else if c = opcode_equalverify then Inr (op_equalverify s)
      else if c = opcode_add then Inr (op_add s)
      else if c = opcode_greaterthanorequal then Inr (op_greaterthanorequal s)
      else if c = opcode_codeseparator then Inr (True, s)
      else if c = opcode_checksig then op_checksig E parent_tx input_index s
      else if c = opcode_checksigverify then op_checksigverify E parent_tx input_index s
      else if c = opcode_checkmultisig then op_checkmultisig E parent_tx input_index s
      else if c = opcode_checkmultisigverify then
        op_checkmultisigverify E parent_tx input_index s
      else if opcode_op_nop1 \<le> c \<and> c \<le> opcode_op_nop10 then Inr (True, s)
      else Inr (False, s))"

text \<open>
  \<open>next_step\<close> at the position \<open>it\<close> of the operation sequence (the loop of the run
  only passes positions below the size).
\<close>

definition next_step ::
  "collaborators \<Rightarrow> nat \<Rightarrow> transaction \<Rightarrow> 32 word \<Rightarrow> script \<Rightarrow> fault + (bool \<times> script)" where
  "next_step E it parent_tx input_index s =
     (let oper = operations s ! it in
      if opcode_is_disabled (code oper) then Inr (False, s)
      else
        (let allow_execution = \<not> has_failed_branches (conditional_stack s) in
         if \<not> allow_execution \<and> \<not> is_condition_opcode (code oper) then Inr (True, s)
         else if code oper = opcode_zero then Inr (True, push_stack [] s)
         else if code oper = opcode_special \<or> code oper = opcode_pushdata1
                 \<or> code oper = opcode_pushdata2 \<or> code oper = opcode_pushdata4 then
           Inr (True, push_stack (data oper) s)
         else if code oper = opcode_codeseparator then Inr (True, s\<lparr>codehash_begin := it\<rparr>)
         else
           (case run_operation E oper parent_tx input_index s of
              Inl f \<Rightarrow> Inl f
            | Inr (False, s1) \<Rightarrow> Inr (False, s1)
            | Inr (True, s1) \<Rightarrow> Inr (True, s1))))"

text \<open>The \<open>for\<close> loop of the run over the positions that are left.\<close>

fun run_steps ::
  "collaborators \<Rightarrow> transaction \<Rightarrow> 32 word \<Rightarrow> nat list \<Rightarrow> script \<Rightarrow> fault + (bool \<times> script)" where
  "run_steps E parent_tx input_index [] s = Inr (True, s)"
| "run_steps E parent_tx input_index (it # its) s =
     (case next_step E it parent_tx input_index s of
        Inl f \<Rightarrow> Inl f
      | Inr (False, s1) \<Rightarrow> Inr (False, s1)
      | Inr (True, s1) \<Rightarrow> run_steps E parent_tx input_index its s1)"

text \<open>\<open>script::run(parent_tx, input_index)\<close>, the run of one script.\<close>

definition run_script ::
  "collaborators \<Rightarrow> transaction \<Rightarrow> 32 word \<Rightarrow> script \<Rightarrow> fault + (bool \<times> script)" where
  "run_script E parent_tx input_index s =
     (let s0 = s\<lparr>alternate_stack := [], codehash_begin := 0, conditional_stack := []\<rparr> in
      case run_steps E parent_tx input_index [0..<length (operations s0)] s0 of
        Inl f \<Rightarrow> Inl f
      | Inr (False, s1) \<Rightarrow> Inr (False, s1)
      | Inr (True, s1) \<Rightarrow>
          if \<not> closed (conditional_stack s1) then Inr (False, s1) else Inr (True, s1))"

datatype payment_type =
  payment_pubkey | payment_pubkey_hash | payment_script_hash | payment_multisig
  | payment_non_standard

definition is_pubkey_type :: "operation list \<Rightarrow> bool" where
  "is_pubkey_type ops =
     (length ops = 2 \<and> code (ops ! 0) = opcode_special \<and> code (ops ! 1) = opcode_checksig)"

definition is_pubkey_hash_type :: "operation list \<Rightarrow> bool" where
  "is_pubkey_hash_type ops =
     (length ops = 5 \<and> code (ops ! 0) = opcode_dup \<and> code (ops ! 1) = opcode_hash160
      \<and> code (ops ! 2) = opcode_special \<and> length (data (ops ! 2)) = 20
      \<and> code (ops ! 3) = opcode_equalverify \<and> code (ops ! 4) = opcode_checksig)"

definition is_script_hash_type :: "operation list \<Rightarrow> bool" where
  "is_script_hash_type ops =
     (length ops = 3 \<and> code (ops ! 0) = opcode_hash160 \<and> code (ops ! 1) = opcode_special
      \<and> length (data (ops ! 1)) = 20 \<and> code (ops ! 2) = opcode_equal)"

definition is_multisig_type :: "operation list \<Rightarrow> bool" where
  "is_multisig_type ops = False"

definition script_type :: "operation list \<Rightarrow> payment_type" where
  "script_type ops =
     (if is_pubkey_type ops then payment_pubkey
      else if is_pubkey_hash_type ops then payment_pubkey_hash
      else if is_script_hash_type ops then payment_script_hash
      else if is_multisig_type ops then payment_multisig
      else payment_non_standard)"

text \<open>
  \<open>script::run(input_script, parent_tx, input_index, bip16_enabled)\<close>, the public run of
  an output script (\<open>self\<close>) after an input script (\<open>input\<close>). \<open>parse_script\<close> builds a script with
  empty run-time slots.
\<close>

definition run ::
  "collaborators \<Rightarrow> script \<Rightarrow> script \<Rightarrow> transaction \<Rightarrow> 32 word \<Rightarrow> bool \<Rightarrow> fault + bool" where
  "run E self input parent_tx input_index bip16_enabled =
     (case run_script E parent_tx input_index (input\<lparr>stack := []\<rparr>) of
        Inl f \<Rightarrow> Inl f
      | Inr (False, in1) \<Rightarrow> Inr False
      | Inr (True, in1) \<Rightarrow>
          (case run_script E parent_tx input_index (self\<lparr>stack := stack in1\<rparr>) of
             Inl f \<Rightarrow> Inl f
           | Inr (False, self1) \<Rightarrow> Inr False
           | Inr (True, self1) \<Rightarrow>
               if stack self1 = [] then Inr False
               else if \<not> cast_to_bool (last (stack self1)) then Inr False
               else if bip16_enabled \<and> script_type (operations self1) = payment_script_hash then
                 (if \<not> is_push_only (operations in1) then Inr False
                  else if stack in1 = [] then Inl Out_of_range
                  else
                    (case parse_script (last (stack in1)) of
                       Inl f \<Rightarrow> Inl f
                     | Inr eval_operations \<Rightarrow>
                         (case run_script E parent_tx input_index
                                 \<lparr>operations = eval_operations, stack = butlast (stack in1),
                                  alternate_stack = [], conditional_stack = [],
                                  codehash_begin = 0\<rparr> of
                            Inl f \<Rightarrow> Inl f
                          | Inr (False, ev) \<Rightarrow> Inr False
                          | Inr (True, ev) \<Rightarrow>
                              if stack ev = [] then Inr False
                              else Inr (cast_to_bool (last (stack ev))))))
               else Inr True))"

section \<open>Concrete inputs\<close>

text \<open>
  Inputs at which the theorems below are instantiated: collaborators whose key accepts
  every non-empty public key and every signature, and a transaction with two inputs and
  one output.
\<close>

definition example_collaborators :: collaborators where
  "example_collaborators =
     \<lparr>hash_transaction = (\<lambda>tx hash_type. replicate 32 1),
      set_public_key = (\<lambda>pubkey. pubkey \<noteq> []),
      verify = (\<lambda>pubkey tx_hash signature. True),
      SHA256 = (\<lambda>d. replicate 32 2),
      generate_ripemd_hash = (\<lambda>d. replicate 20 3)\<rparr>"

definition example_input :: transaction_input where
  "example_input =
     \<lparr>previous_output = (replicate 32 7, 0), input_script = [], sequence = 0xffffffff\<rparr>"

definition example_tx :: transaction where
  "example_tx =
     \<lparr>version = 1, locktime = 0, inputs = [example_input, example_input],
      outputs = [\<lparr>output_value = 50, output_script = []\<rparr>]\<rparr>"

section \<open>Properties of the boolean cast\<close>

lemma cast_to_bool_char:
  "cast_to_bool b \<longleftrightarrow>
     (\<exists>x\<in>set b. x \<noteq> 0) \<and> \<not> (b \<noteq> [] \<and> last b = 0x80 \<and> (\<forall>x\<in>set (butlast b). x = 0))"
proof (induction b)
  case Nil
  show ?case by simp
next
  case (Cons v vs)
  show ?case
  proof (cases "v = 0")
    case True
    then show ?thesis using Cons.IH by (cases vs) auto
  next
    case False
    then show ?thesis by (cases vs) auto
  qed
qed

text \<open>
  C6. For every byte string \<open>b\<close>, \<open>cast_to_bool b\<close> is true if and only if \<open>b\<close> contains
  a non-zero byte, except that it is false when the last byte of \<open>b\<close> is \<open>0x80\<close> and all
  other bytes are zero (negative zero). In particular the casts of \<open>[0x80]\<close>,
  \<open>[0x00, 0x80]\<close> and \<open>[]\<close> are false and the cast of \<open>[0x01]\<close> is true.
\<close>

theorem cast_to_bool_spec:
  "(cast_to_bool b \<longleftrightarrow>
      (\<exists>x\<in>set b. x \<noteq> 0) \<and>
      \<not> (b \<noteq> [] \<and> last b = 0x80 \<and> (\<forall>x\<in>set (butlast b). x = 0)))
   \<and> \<not> cast_to_bool [0x80]
   \<and> \<not> cast_to_bool [0x00, 0x80]
   \<and> \<not> cast_to_bool []
   \<and> cast_to_bool [0x01]"
  using cast_to_bool_char [of b] by simp

theorem cast_to_bool_spec_witness:
  "cast_to_bool [0x00, 0x05, 0x80] \<and> \<not> cast_to_bool [0x00, 0x00, 0x80]
   \<and> \<not> cast_to_bool [0x80] \<and> cast_to_bool [0x01]"
  using cast_to_bool_spec [of "[0x00, 0x05, 0x80]"] cast_to_bool_spec [of "[0x00, 0x00, 0x80]"]
  by simp

section \<open>Properties of the serializer\<close>



lemma read_back_from_iterator_eq:
  "read_back_from_iterator rest n =
     (if length rest < n then Inl Out_of_range else Inr (take n rest, drop n rest))"
  by (induction rest n rule: read_back_from_iterator.induct) auto

lemma parse_operation_zero:
  "parse_operation 0 rest = Inr (Some (\<lparr>code = opcode_zero, data = []\<rparr>, rest))"
  by (simp add: parse_operation_def number_of_bytes_from_opcode_def)

lemma parse_operation_special:
  assumes "0 < b" "b \<le> 75"
  shows "parse_operation b rest =
     (if length rest < unat b then Inr None
      else Inr (Some (\<lparr>code = opcode_special, data = take (unat b) rest\<rparr>, drop (unat b) rest)))"
proof -
  have "b \<noteq> 0" "unat b \<noteq> 0" using assms by (auto simp: word_less_nat_alt)
  then show ?thesis using assms
    by (simp add: parse_operation_def number_of_bytes_from_opcode_def read_push_data_eq)
qed

lemma parse_operation_pushdata1:
  "parse_operation 76 rest =
     (case rest of
        [] \<Rightarrow> Inl Out_of_range
      | l # r \<Rightarrow>
          if length r < unat l then Inr None
          else Inr (Some (\<lparr>code = opcode_pushdata1, data = take (unat l) r\<rparr>, drop (unat l) r)))"
  by (simp add: parse_operation_def number_of_bytes_from_opcode_def read_push_data_eq
           split: list.splits)

lemma parse_operation_pushdata2:
  "parse_operation 77 rest =
     (if length rest < 2 then Inl Out_of_range
      else let n = cast_chunk (take 2 rest); r = drop 2 rest in
        if length r < n then Inr None
        else Inr (Some (\<lparr>code = opcode_pushdata2, data = take n r\<rparr>, drop n r)))"
proof (cases "length rest < 2")
  case True
  then show ?thesis
    by (simp add: parse_operation_def number_of_bytes_from_opcode_def read_back_from_iterator_eq)
next
  case False
  then show ?thesis
    by (cases "cast_chunk (take 2 rest) = 0")
       (simp_all add: parse_operation_def number_of_bytes_from_opcode_def read_push_data_eq
          read_back_from_iterator_eq Let_def)
qed

lemma parse_operation_pushdata4:
  "parse_operation 78 rest =
     (if length rest < 4 then Inl Out_of_range
      else let n = cast_chunk (take 4 rest); r = drop 4 rest in
        if length r < n then Inr None
        else Inr (Some (\<lparr>code = opcode_pushdata4, data = take n r\<rparr>, drop n r)))"
proof (cases "length rest < 4")
  case True
  then show ?thesis
    by (simp add: parse_operation_def number_of_bytes_from_opcode_def read_back_from_iterator_eq)
next
  case False
  then show ?thesis
    by (cases "cast_chunk (take 4 rest) = 0")
       (simp_all add: parse_operation_def number_of_bytes_from_opcode_def read_push_data_eq
          read_back_from_iterator_eq Let_def)
qed

lemma parse_operation_other:
  assumes "78 < b"
  shows "parse_operation b rest = Inr (Some (\<lparr>code = unat b, data = []\<rparr>, rest))"
proof -
  have "78 < unat b" using assms by (simp add: word_less_nat_alt)
  moreover from this have "b \<noteq> 0" "\<not> b \<le> 75" by (auto simp: word_le_nat_alt)
  ultimately show ?thesis
    by (simp add: parse_operation_def number_of_bytes_from_opcode_def)
qed

lemma byte_cases:
  fixes b :: byte
  obtains "b = 0" | "0 < b" "b \<le> 75" | "b = 76" | "b = 77" | "b = 78" | "78 < b"
proof -
  have eqs: "(b = 0) = (unat b = 0)" "(b = 76) = (unat b = 76)" "(b = 77) = (unat b = 77)"
    "(b = 78) = (unat b = 78)"
    by (simp_all add: word_unat_eq_iff)
  have "unat b = 0 \<or> (0 < unat b \<and> unat b \<le> 75) \<or> unat b = 76 \<or> unat b = 77 \<or> unat b = 78 \<or> 78 < unat b"
    by arith
  then show ?thesis using that unfolding eqs word_less_nat_alt word_le_nat_alt
    by auto
qed












lemma parse_script_single:
  "parse_operation b rest = Inr (Some (oper, [])) \<Longrightarrow> parse_script (b # rest) = Inr [oper]"
  by (simp add: parse_script_def)



text \<open>
  The hypothesis on the enumerator is needed. Were \<open>raw_data\<close> the opcode of a byte above
  \<open>pushdata4\<close>, the script of that one byte would parse to a first operation with that
  code and \<open>save_script\<close> would answer its empty payload.
\<close>

lemma save_script_raw_data_byte:
  assumes "78 < raw_data" "raw_data < 256"
  shows "parse_script [of_nat raw_data] = Inr [\<lparr>code = raw_data, data = []\<rparr>]
     \<and> save_script raw_data [\<lparr>code = raw_data, data = []\<rparr>] = []"
proof -
  have u: "unat (of_nat raw_data :: byte) = raw_data"
    using assms(2) by (simp add: unat_of_nat)
  then have "78 < (of_nat raw_data :: byte)"
    using assms(1) by (simp add: word_less_nat_alt)
  then have "parse_operation (of_nat raw_data) [] = Inr (Some (\<lparr>code = raw_data, data = []\<rparr>, []))"
    using u by (simp add: parse_operation_other)
  then show ?thesis
    by (simp add: parse_script_single save_script_def)
qed

lemma parse_operation_append:
  assumes "parse_operation b rest = Inr (Some (oper, rest'))"
  shows "parse_operation b (rest @ tail_bytes) = Inr (Some (oper, rest' @ tail_bytes))"
proof (cases b rule: byte_cases)
  case 1
  then show ?thesis using assms by (simp add: parse_operation_zero)
next
  case 2
  then show ?thesis using assms
    by (auto simp: parse_operation_special split: if_splits)
next
  case 3
  then show ?thesis using assms
    by (auto simp: parse_operation_pushdata1 split: list.splits if_splits)
next
  case 4
  then show ?thesis using assms
    by (auto simp: parse_operation_pushdata2 Let_def split: if_splits)
next
  case 5
  then show ?thesis using assms
    by (auto simp: parse_operation_pushdata4 Let_def split: if_splits)
next
  case 6
  then show ?thesis using assms by (simp add: parse_operation_other)
qed

lemma parse_loop_append:
  "parse_loop raw acc = Inr ops \<Longrightarrow> ops \<noteq> [] \<or> raw = [] \<Longrightarrow>
     parse_loop (raw @ tail_bytes) acc = parse_loop tail_bytes ops"
proof (induction raw acc rule: parse_loop.induct)
  case (1 script_object)
  then show ?case by simp
next
  case (2 raw_byte rest script_object)
  from "2.prems" obtain oper rest' where
    po: "parse_operation raw_byte rest = Inr (Some (oper, rest'))"
    by (auto split: sum.splits option.splits)
  then have rec: "parse_loop rest' (script_object @ [oper]) = Inr ops"
    using "2.prems" by simp
  have "ops \<noteq> [] \<or> rest' = []"
  proof (cases "rest' = []")
    case True
    then show ?thesis by simp
  next
    case False
    then show ?thesis using "2.prems" by simp
  qed
  from "2.IH" [OF po refl refl rec this]
  show ?case using parse_operation_append [OF po, of tail_bytes] by simp
qed

lemma parse_script_truncated_payload:
  assumes "parse_script prefix = Inr ops" "ops \<noteq> [] \<or> prefix = []"
    "parse_operation b rest = Inr None"
  shows "parse_script (prefix @ b # rest) = Inr []"
  using parse_loop_append [of prefix "[]" ops "b # rest"] assms
  by (simp add: parse_script_def)

lemma parse_script_truncated_length_prefix:
  assumes "parse_script prefix = Inr ops" "ops \<noteq> [] \<or> prefix = []"
    "parse_operation b rest = Inl f"
  shows "parse_script (prefix @ b # rest) = Inl f"
  using parse_loop_append [of prefix "[]" ops "b # rest"] assms
  by (simp add: parse_script_def)

lemma byte_above_pushdata4:
  fixes b :: byte
  assumes "78 < b"
  shows "\<not> b \<le> 75" "b \<noteq> 76" "b \<noteq> 77" "b \<noteq> 78" "b \<noteq> 0"
  using assms by (auto simp: word_less_nat_alt word_le_nat_alt)

lemma parse_operation_premature_end:
  "parse_operation b rest = Inr None \<longleftrightarrow>
     (0 < b \<and> b \<le> 75 \<and> length rest < unat b)
     \<or> (b = 76 \<and> rest \<noteq> [] \<and> length (tl rest) < unat (hd rest))
     \<or> (b = 77 \<and> 2 \<le> length rest \<and> length (drop 2 rest) < cast_chunk (take 2 rest))
     \<or> (b = 78 \<and> 4 \<le> length rest \<and> length (drop 4 rest) < cast_chunk (take 4 rest))"
proof (cases b rule: byte_cases)
  case 1
  then show ?thesis by (simp add: parse_operation_zero)
next
  case 2
  moreover from 2 have "b \<noteq> 76" "b \<noteq> 77" "b \<noteq> 78" by auto
  ultimately show ?thesis by (simp add: parse_operation_special)
next
  case 3
  then show ?thesis by (cases rest) (simp_all add: parse_operation_pushdata1)
next
  case 4
  then show ?thesis by (auto simp: parse_operation_pushdata2 Let_def)
next
  case 5
  then show ?thesis by (auto simp: parse_operation_pushdata4 Let_def)
next
  case 6
  moreover note byte_above_pushdata4 [OF 6]
  ultimately show ?thesis by (simp add: parse_operation_other)
qed

lemma parse_operation_fault:
  "parse_operation b rest = Inl f \<longleftrightarrow>
     (b = 76 \<and> rest = []) \<or> (b = 77 \<and> length rest < 2) \<or> (b = 78 \<and> length rest < 4)"
proof (cases b rule: byte_cases)
  case 1
  then show ?thesis by (simp add: parse_operation_zero)
next
  case 2
  moreover from 2 have "b \<noteq> 76" "b \<noteq> 77" "b \<noteq> 78" by auto
  ultimately show ?thesis by (simp add: parse_operation_special)
next
  case 3
  then show ?thesis by (cases rest; cases f) (simp_all add: parse_operation_pushdata1)
next
  case 4
  then show ?thesis by (cases f) (auto simp: parse_operation_pushdata2 Let_def)
next
  case 5
  then show ?thesis by (cases f) (auto simp: parse_operation_pushdata4 Let_def)
next
  case 6
  moreover note byte_above_pushdata4 [OF 6]
  ultimately show ?thesis by (simp add: parse_operation_other)
qed

text \<open>
  C8. A push whose payload is cut short by the end of the script makes \<open>parse_script\<close>
  return the empty script, after any prefix that parses
  (\<open>parse_operation_premature_end\<close>, \<open>parse_script_truncated_payload\<close>). A script
  that ends inside the 1, 2 or 4 byte length prefix of \<open>pushdata1\<close>, \<open>pushdata2\<close> or
  \<open>pushdata4\<close> does not: the prefix is read without a comparison with the end of the
  script (\<open>parse_operation_fault\<close>, \<open>parse_script_truncated_length_prefix\<close>). The
  code at such inputs:
\<close>

theorem parse_script_length_prefix_fault:
  "parse_script [0x4c] = Inl Out_of_range
   \<and> parse_script [0x4d, 0x01] = Inl Out_of_range
   \<and> parse_script [0x4e, 0x01, 0x00, 0x00] = Inl Out_of_range"
  by (simp add: parse_script_def parse_operation_pushdata1 parse_operation_pushdata2
        parse_operation_pushdata4)

lemma parse_loop_premature_end:
  "parse_operation b rest = Inr None \<Longrightarrow> parse_loop (b # rest) acc = Inr []"
  by simp

lemma cast_uncast: "cast_chunk (uncast_type w n) = n mod 256 ^ w"
proof (induction w arbitrary: n)
  case 0
  show ?case by simp
next
  case (Suc w)
  have "unat (word_of_nat (n mod 256) :: byte) = n mod 256"
    by (simp add: unat_of_nat)
  then show ?case using Suc.IH [of "n div 256"]
    by (simp add: mod_mult2_eq)
qed

lemma length_uncast_type: "length (uncast_type w n) = w"
  by (induction w arbitrary: n) auto

lemma parse_script_pushdata2:
  assumes "length d < 65536"
  shows "parse_script (0x4d # uncast_type 2 (length d) @ d)
           = Inr [\<lparr>code = opcode_pushdata2, data = d\<rparr>]"
proof -
  let ?rest = "uncast_type 2 (length d) @ d"
  have t: "take 2 ?rest = uncast_type 2 (length d)" "drop 2 ?rest = d"
    by (simp_all add: length_uncast_type)
  have n: "cast_chunk (uncast_type 2 (length d)) = length d"
    using assms by (simp add: cast_uncast)
  have "parse_operation 77 ?rest = Inr (Some (\<lparr>code = opcode_pushdata2, data = d\<rparr>, []))"
    unfolding parse_operation_pushdata2 t Let_def n by (simp add: length_uncast_type)
  then show ?thesis by (rule parse_script_single [of 77, simplified])
qed

section \<open>Properties of the signature hash\<close>

lemma length_nullify [simp]:
  "length (nullify_input_sequences ins e) = length ins"
  by (simp add: nullify_input_sequences_def)

lemma sighash_outputs_inputs_length:
  "sighash_outputs tx i ht = Some tx1 \<Longrightarrow> length (inputs tx1) = length (inputs tx)"
  by (auto simp: sighash_outputs_def Let_def split: if_splits)

lemma generate_signature_hash_single_out_of_range:
  assumes "hash_type AND 0x1f = sighash_single" "unat input_index \<ge> length (outputs parent_tx)"
  shows "generate_signature_hash E parent_tx input_index script_code hash_type = Inr null_hash"
  using assms by (simp add: generate_signature_hash_def sighash_outputs_def)

lemma check_signature_null_hash:
  assumes "signature \<noteq> []"
    "generate_signature_hash E parent_tx input_index script_code (ucast (last signature))
       = Inr null_hash"
  shows "check_signature E signature pubkey script_code parent_tx input_index = Inr False"
  using assms by (simp add: check_signature_def Let_def)

text \<open>
  C1. For every transaction, input index, scriptcode and \<open>hash_type\<close> whose low 5 bits
  are \<open>single\<close> (3), if the input index is not below the number of outputs then
  \<open>generate_signature_hash\<close> returns the digest of 32 zero bytes (it returns, it does
  not fault), and every \<open>check_signature\<close> that receives this digest for the hash type of
  its signature returns false.
\<close>

theorem sighash_single_out_of_range:
  "(hash_type AND 0x1f = sighash_single \<and> unat input_index \<ge> length (outputs parent_tx)
      \<longrightarrow> generate_signature_hash E parent_tx input_index script_code hash_type = Inr null_hash
          \<and> null_hash = replicate 32 0)
   \<and> (signature \<noteq> []
        \<and> generate_signature_hash E parent_tx input_index script_code (ucast (last signature))
            = Inr null_hash
      \<longrightarrow> check_signature E signature pubkey script_code parent_tx input_index = Inr False)"
  using generate_signature_hash_single_out_of_range check_signature_null_hash
  by (simp add: null_hash_def)

theorem sighash_single_out_of_range_witness:
  "generate_signature_hash example_collaborators example_tx 1 [] 3 = Inr (replicate 32 0)
   \<and> check_signature example_collaborators [0x30, 0x03] [0x02] [] example_tx 1 = Inr False"
  using sighash_single_out_of_range [where hash_type = 3 and input_index = 1
      and parent_tx = example_tx and E = example_collaborators and script_code = "[]"
      and signature = "[0x30, 0x03]" and pubkey = "[0x02]"]
  by (simp add: example_tx_def null_hash_def)

lemma generate_signature_hash_anyone_can_pay:
  assumes "1 \<le> unat input_index" "unat input_index < length (inputs parent_tx)"
    "hash_type AND sighash_anyone_can_pay \<noteq> 0"
  shows "generate_signature_hash E parent_tx input_index script_code hash_type = Inr null_hash"
proof (cases "sighash_outputs parent_tx input_index hash_type")
  case None
  then show ?thesis by (simp add: generate_signature_hash_def)
next
  case (Some tx1)
  have len: "length (inputs tx1) = length (inputs parent_tx)"
    using sighash_outputs_inputs_length [OF Some] .
  have "sighash_anyone_can_pay_inputs tx1 input_index hash_type =
      Inr (tx1\<lparr>inputs := take 1 ((inputs tx1)[0 := inputs tx1 ! unat input_index])\<rparr>)"
    using assms len by (simp add: sighash_anyone_can_pay_inputs_def)
  moreover have "min (length (inputs tx1)) 1 \<le> unat input_index"
    using assms(1) by simp
  ultimately show ?thesis using Some
    by (simp add: generate_signature_hash_def)
qed

lemma check_signature_anyone_can_pay:
  assumes "1 \<le> unat input_index" "unat input_index < length (inputs parent_tx)"
    "signature \<noteq> []" "(ucast (last signature) :: 32 word) AND sighash_anyone_can_pay \<noteq> 0"
  shows "check_signature E signature pubkey script_code parent_tx input_index = Inr False"
  using assms generate_signature_hash_anyone_can_pay check_signature_null_hash by simp

lemma sighash_anyone_can_pay_example:
  "generate_signature_hash example_collaborators example_tx 1 [] 0x81 = Inr (replicate 32 0)
   \<and> check_signature example_collaborators [0x30, 0x81] [0x02] [] example_tx 1 = Inr False"
  using generate_signature_hash_anyone_can_pay [where hash_type = "0x81" and input_index = 1
      and parent_tx = example_tx and E = example_collaborators and script_code = "[]"]
    check_signature_anyone_can_pay [where input_index = 1 and parent_tx = example_tx
      and E = example_collaborators and script_code = "[]" and signature = "[0x30, 0x81]"
      and pubkey = "[0x02]"]
  by (simp add: example_tx_def null_hash_def)


section \<open>Properties of the interpreter\<close>

text \<open>
  C2, as amended. For every execution step at a \<open>codeseparator\<close> operation: when the
  conditional stack has no failed branch, the step sets \<open>codehash_begin\<close> to the position
  of the operation; when it has one (a non-executing branch), the step is skipped with
  the whole state, \<open>codehash_begin\<close> included, unchanged. Both steps succeed.
\<close>

theorem next_step_codeseparator:
  "code (operations s ! it) = opcode_codeseparator \<Longrightarrow>
     next_step E it parent_tx input_index s =
       (if has_failed_branches (conditional_stack s) then Inr (True, s)
        else Inr (True, s\<lparr>codehash_begin := it\<rparr>))"
  by (simp add: next_step_def opcode_is_disabled_def is_condition_opcode_def)

theorem next_step_codeseparator_witness:
  "next_step example_collaborators 1 example_tx 0
     \<lparr>operations = [\<lparr>code = opcode_nop, data = []\<rparr>, \<lparr>code = opcode_codeseparator, data = []\<rparr>],
      stack = [], alternate_stack = [], conditional_stack = [True], codehash_begin = 0\<rparr>
   = Inr (True,
     \<lparr>operations = [\<lparr>code = opcode_nop, data = []\<rparr>, \<lparr>code = opcode_codeseparator, data = []\<rparr>],
      stack = [], alternate_stack = [], conditional_stack = [True], codehash_begin = 1\<rparr>)"
  using next_step_codeseparator [where it = 1 and E = example_collaborators
      and parent_tx = example_tx and input_index = 0
      and s = "\<lparr>operations = [\<lparr>code = opcode_nop, data = []\<rparr>,
                               \<lparr>code = opcode_codeseparator, data = []\<rparr>],
               stack = [], alternate_stack = [], conditional_stack = [True],
               codehash_begin = 0\<rparr>"]
  by (simp add: has_failed_branches_def)

text \<open>
  The claim as stated (an update that does not depend on the conditional stack) fails
  inside the dead branch of \<open>zero if codeseparator endif\<close>: the step at position 2 leaves
  \<open>codehash_begin\<close> at 0, and so does the whole run.
\<close>

theorem codeseparator_skipped_counterexample:
  "next_step example_collaborators 2 example_tx 0
     \<lparr>operations = [\<lparr>code = opcode_zero, data = []\<rparr>, \<lparr>code = opcode_if, data = []\<rparr>,
                    \<lparr>code = opcode_codeseparator, data = []\<rparr>, \<lparr>code = opcode_endif, data = []\<rparr>],
      stack = [], alternate_stack = [], conditional_stack = [False], codehash_begin = 0\<rparr>
   = Inr (True,
     \<lparr>operations = [\<lparr>code = opcode_zero, data = []\<rparr>, \<lparr>code = opcode_if, data = []\<rparr>,
                    \<lparr>code = opcode_codeseparator, data = []\<rparr>, \<lparr>code = opcode_endif, data = []\<rparr>],
      stack = [], alternate_stack = [], conditional_stack = [False], codehash_begin = 0\<rparr>)
   \<and> run_script example_collaborators example_tx 0
     \<lparr>operations = [\<lparr>code = opcode_zero, data = []\<rparr>, \<lparr>code = opcode_if, data = []\<rparr>,
                    \<lparr>code = opcode_codeseparator, data = []\<rparr>, \<lparr>code = opcode_endif, data = []\<rparr>],
      stack = [], alternate_stack = [], conditional_stack = [], codehash_begin = 0\<rparr>
   = Inr (True,
     \<lparr>operations = [\<lparr>code = opcode_zero, data = []\<rparr>, \<lparr>code = opcode_if, data = []\<rparr>,
                    \<lparr>code = opcode_codeseparator, data = []\<rparr>, \<lparr>code = opcode_endif, data = []\<rparr>],
      stack = [], alternate_stack = [], conditional_stack = [], codehash_begin = 0\<rparr>)"
  by (simp add: run_script_def next_step_def opcode_is_disabled_def is_condition_opcode_def
        has_failed_branches_def run_operation_def op_if_def op_endif_def push_stack_def
        pop_stack_def closed_def conditional_close_def upt_rec)

lemma run_script_success_closed:
  "run_script E parent_tx input_index s = Inr (True, s') \<Longrightarrow> conditional_stack s' = []"
  by (auto simp: run_script_def Let_def closed_def split: sum.splits prod.splits bool.splits if_splits)

lemma run_script_pending_if:
  "run_steps E parent_tx input_index [0..<length (operations s)]
       (s\<lparr>alternate_stack := [], codehash_begin := 0, conditional_stack := []\<rparr>) = Inr (True, t)
   \<Longrightarrow> conditional_stack t \<noteq> []
   \<Longrightarrow> run_script E parent_tx input_index s = Inr (False, t)"
  by (simp add: run_script_def closed_def)

text \<open>
  C7. For every script whose run over its operations returns success, the conditional
  stack is empty at the end; and every run whose loop reaches the end of the operations
  with a conditional stack that is not empty (a pending \<open>if\<close>) returns failure.
\<close>

theorem run_script_conditional_stack:
  "(run_script E parent_tx input_index s = Inr (True, s') \<longrightarrow> conditional_stack s' = [])
   \<and> (run_steps E parent_tx input_index [0..<length (operations s)]
          (s\<lparr>alternate_stack := [], codehash_begin := 0, conditional_stack := []\<rparr>) = Inr (True, t)
        \<and> conditional_stack t \<noteq> []
      \<longrightarrow> run_script E parent_tx input_index s = Inr (False, t))"
  using run_script_success_closed run_script_pending_if by blast

lemma run_example_if_endif:
  "run_script example_collaborators example_tx 0
     \<lparr>operations = [\<lparr>code = opcode_op_1, data = []\<rparr>, \<lparr>code = opcode_if, data = []\<rparr>,
                    \<lparr>code = opcode_endif, data = []\<rparr>],
      stack = [], alternate_stack = [], conditional_stack = [], codehash_begin = 0\<rparr>
   = Inr (True,
     \<lparr>operations = [\<lparr>code = opcode_op_1, data = []\<rparr>, \<lparr>code = opcode_if, data = []\<rparr>,
                    \<lparr>code = opcode_endif, data = []\<rparr>],
      stack = [], alternate_stack = [], conditional_stack = [], codehash_begin = 0\<rparr>)"
  by (simp add: run_script_def next_step_def opcode_is_disabled_def is_condition_opcode_def
        has_failed_branches_def run_operation_def op_if_def op_endif_def op_x_def push_stack_def
        pop_stack_def closed_def conditional_close_def upt_rec big_number_data_def
        le_magnitude.simps)

theorem run_script_conditional_stack_witness:
  "run_script example_collaborators example_tx 0
     \<lparr>operations = [\<lparr>code = opcode_op_1, data = []\<rparr>, \<lparr>code = opcode_if, data = []\<rparr>],
      stack = [], alternate_stack = [], conditional_stack = [], codehash_begin = 0\<rparr>
   = Inr (False,
     \<lparr>operations = [\<lparr>code = opcode_op_1, data = []\<rparr>, \<lparr>code = opcode_if, data = []\<rparr>],
      stack = [], alternate_stack = [], conditional_stack = [True], codehash_begin = 0\<rparr>)
   \<and> conditional_stack
       \<lparr>operations = [\<lparr>code = opcode_op_1, data = []\<rparr>, \<lparr>code = opcode_if, data = []\<rparr>,
                      \<lparr>code = opcode_endif, data = []\<rparr>],
        stack = [], alternate_stack = [], conditional_stack = [], codehash_begin = 0\<rparr> = []
   \<and> run_script example_collaborators example_tx 0
       \<lparr>operations = [\<lparr>code = opcode_op_1, data = []\<rparr>, \<lparr>code = opcode_if, data = []\<rparr>,
                      \<lparr>code = opcode_endif, data = []\<rparr>],
        stack = [], alternate_stack = [], conditional_stack = [], codehash_begin = 0\<rparr>
     = Inr (True,
       \<lparr>operations = [\<lparr>code = opcode_op_1, data = []\<rparr>, \<lparr>code = opcode_if, data = []\<rparr>,
                      \<lparr>code = opcode_endif, data = []\<rparr>],
        stack = [], alternate_stack = [], conditional_stack = [], codehash_begin = 0\<rparr>)"
    (is "run_script _ _ _ ?S = Inr (False, ?T) \<and> conditional_stack ?U = [] \<and> _")
proof -
  have steps: "run_steps example_collaborators example_tx 0 [0..<length (operations ?S)]
      (?S\<lparr>alternate_stack := [], codehash_begin := 0, conditional_stack := []\<rparr>) = Inr (True, ?T)"
    by (simp add: next_step_def opcode_is_disabled_def is_condition_opcode_def
        has_failed_branches_def run_operation_def op_if_def op_x_def push_stack_def
        pop_stack_def upt_rec big_number_data_def le_magnitude.simps)
  have pending: "conditional_stack ?T \<noteq> []" by simp
  have "run_script example_collaborators example_tx 0 ?S = Inr (False, ?T)"
    using run_script_conditional_stack [where E = example_collaborators
        and parent_tx = example_tx and input_index = 0 and s = ?S and t = ?T] steps pending
    by blast
  moreover have "conditional_stack ?U = []"
    using run_script_conditional_stack [where E = example_collaborators
        and parent_tx = example_tx and input_index = 0 and s = ?U and s' = ?U]
      run_example_if_endif
    by blast
  ultimately show ?thesis using run_example_if_endif by blast
qed

lemma next_step_zero:
  "code (operations s ! it) = opcode_zero \<Longrightarrow> \<not> has_failed_branches (conditional_stack s)
     \<Longrightarrow> next_step E it parent_tx input_index s = Inr (True, push_stack [] s)"
  by (simp add: next_step_def opcode_is_disabled_def)

lemma run_steps_zero:
  "\<forall>k\<in>set its. code (operations s ! k) = opcode_zero
     \<Longrightarrow> \<not> has_failed_branches (conditional_stack s)
     \<Longrightarrow> run_steps E parent_tx input_index its s
           = Inr (True, s\<lparr>stack := stack s @ replicate (length its) []\<rparr>)"
proof (induction its arbitrary: s)
  case Nil
  show ?case by simp
next
  case (Cons it its)
  let ?s1 = "push_stack [] s"
  have step: "next_step E it parent_tx input_index s = Inr (True, ?s1)"
    using Cons.prems by (simp add: next_step_zero)
  have "run_steps E parent_tx input_index its ?s1
          = Inr (True, ?s1\<lparr>stack := stack ?s1 @ replicate (length its) []\<rparr>)"
    using Cons.prems by (intro Cons.IH) (simp_all add: push_stack_def)
  then show ?case using step
    by (simp add: push_stack_def replicate_app_Cons_same)
qed

lemma run_script_zeros:
  "run_script E parent_tx input_index
     \<lparr>operations = replicate n \<lparr>code = opcode_zero, data = []\<rparr>, stack = st,
      alternate_stack = a, conditional_stack = c, codehash_begin = b\<rparr>
   = Inr (True,
     \<lparr>operations = replicate n \<lparr>code = opcode_zero, data = []\<rparr>,
      stack = st @ replicate n [], alternate_stack = [], conditional_stack = [],
      codehash_begin = 0\<rparr>)"
proof -
  let ?s0 = "\<lparr>operations = replicate n \<lparr>code = opcode_zero, data = []\<rparr>, stack = st,
      alternate_stack = [], conditional_stack = [], codehash_begin = 0\<rparr>"
  have "run_steps E parent_tx input_index [0..<n] ?s0
      = Inr (True, ?s0\<lparr>stack := stack ?s0 @ replicate (length [0..<n]) []\<rparr>)"
    by (rule run_steps_zero) (simp_all add: has_failed_branches_def)
  then show ?thesis by (simp add: run_script_def closed_def)
qed

text \<open>
  C3, as amended. Neither bound is enforced. For every payload \<open>d\<close> of fewer than 65536
  bytes (so also of more than 520), the raw script made of \<open>pushdata2\<close>, the two-byte
  length of \<open>d\<close> and \<open>d\<close> parses to the one operation that carries \<open>d\<close>. And the run
  of a script of \<open>n\<close> \<open>zero\<close> operations succeeds and leaves \<open>n\<close> more items on the
  stack, for every \<open>n\<close> (so also beyond a depth of 1000).
\<close>

theorem no_push_or_depth_bound:
  "(length d < 65536 \<longrightarrow>
      parse_script (0x4d # uncast_type 2 (length d) @ d) = Inr [\<lparr>code = opcode_pushdata2, data = d\<rparr>])
   \<and> run_script E parent_tx input_index
       \<lparr>operations = replicate n \<lparr>code = opcode_zero, data = []\<rparr>, stack = st,
        alternate_stack = a, conditional_stack = c, codehash_begin = b\<rparr>
     = Inr (True,
       \<lparr>operations = replicate n \<lparr>code = opcode_zero, data = []\<rparr>,
        stack = st @ replicate n [], alternate_stack = [], conditional_stack = [],
        codehash_begin = 0\<rparr>)"
  using parse_script_pushdata2 [of d] run_script_zeros by simp

theorem no_push_or_depth_bound_witness:
  "parse_script [0x4d, 0x03, 0x00, 0x0a, 0x0b, 0x0c] =
     Inr [\<lparr>code = opcode_pushdata2, data = [0x0a, 0x0b, 0x0c]\<rparr>]"
  using no_push_or_depth_bound [where d = "[0x0a, 0x0b, 0x0c]" and n = 0]
  by (simp add: numeral_2_eq_2)

text \<open>
  The claim as stated fails at a push of 521 bytes, which parses, and at a script of 1001
  \<open>zero\<close> operations, whose run succeeds with 1001 items on the stack.
\<close>

theorem push_and_depth_counterexample:
  "parse_script (0x4d # 0x09 # 0x02 # replicate 521 0) =
     Inr [\<lparr>code = opcode_pushdata2, data = replicate 521 0\<rparr>]
   \<and> run_script example_collaborators example_tx 0
       \<lparr>operations = replicate 1001 \<lparr>code = opcode_zero, data = []\<rparr>, stack = [],
        alternate_stack = [], conditional_stack = [], codehash_begin = 0\<rparr>
     = Inr (True,
       \<lparr>operations = replicate 1001 \<lparr>code = opcode_zero, data = []\<rparr>,
        stack = replicate 1001 [], alternate_stack = [], conditional_stack = [],
        codehash_begin = 0\<rparr>)"
proof -
  have "uncast_type 2 (length (replicate 521 (0::byte))) = [0x09, 0x02]"
    by (simp add: numeral_2_eq_2)
  then show ?thesis
    using parse_script_pushdata2 [of "replicate 521 0"]
      run_script_zeros [of example_collaborators example_tx 0 1001 "[]" "[]" "[]" 0]
    by simp
qed

section \<open>Properties of the multi-signature check\<close>

lemma match_signatures_no_pubkeys:
  "signatures \<noteq> [] \<Longrightarrow> match_signatures chk signatures [] = Inl Out_of_range"
  by (cases signatures) simp_all

lemma op_checkmultisigverify_no_pubkeys:
  assumes "read_section s = (Some [], s1)" "read_section s1 = (Some signatures, s2)"
    "signatures \<noteq> []"
  shows "op_checkmultisigverify E parent_tx input_index s = Inl Out_of_range"
  using assms by (simp add: op_checkmultisigverify_def match_signatures_no_pubkeys)

lemma read_section_pops:
  assumes "read_section s = (Some section, s1)"
  shows "stack s = stack s1 @ rev section @ [last (stack s)]"
proof -
  let ?below = "butlast (stack s)"
  have ne: "stack s \<noteq> []"
    using assms by (auto simp: read_section_def split: if_splits)
  then obtain count_big_num where "cast_to_big_number (last (stack s)) = Some count_big_num"
    using assms by (auto simp: read_section_def pop_stack_def split: option.splits)
  moreover define n where "n = big_number_uint32 count_big_num"
  ultimately have n: "n \<le> length ?below" and sec: "section = take n (rev ?below)"
    and s1: "stack s1 = take (length ?below - n) ?below"
    using assms ne by (auto simp: read_section_def pop_stack_def Let_def split: if_splits)
  have "rev section = drop (length ?below - n) ?below"
    using n sec by (simp add: rev_take)
  then have "stack s1 @ rev section = ?below" using s1 by simp
  moreover have "?below @ [last (stack s)] = stack s"
    using ne by (rule append_butlast_last_id)
  ultimately have "(stack s1 @ rev section) @ [last (stack s)] = stack s"
    by (simp only:)
  then show ?thesis by simp
qed

lemma op_checkmultisigverify_pops:
  assumes "op_checkmultisigverify E parent_tx input_index s = Inr (True, s')"
  shows "\<exists>pubkeys signatures pubkey_count signature_count.
           stack s = stack s' @ rev signatures @ [signature_count] @ rev pubkeys @ [pubkey_count]"
proof -
  from assms obtain pubkeys s1 where p: "read_section s = (Some pubkeys, s1)"
    by (cases "read_section s")
       (auto simp: op_checkmultisigverify_def split: option.splits)
  from assms p obtain signatures where q: "read_section s1 = (Some signatures, s')"
    by (cases "read_section s1")
       (auto simp: op_checkmultisigverify_def Let_def split: option.splits sum.splits)
  have "stack s = (stack s' @ rev signatures @ [last (stack s1)]) @ rev pubkeys @ [last (stack s)]"
    using read_section_pops [OF p] read_section_pops [OF q] by simp
  then show ?thesis by (intro exI) simp
qed

lemma scan_pubkeys_dropWhile:
  "pubkeys \<noteq> [] \<Longrightarrow>
     scan_pubkeys (\<lambda>pubkey. Inr (v pubkey)) pubkeys =
       Inr (case dropWhile (\<lambda>pubkey. \<not> v pubkey) pubkeys of [] \<Rightarrow> None | found \<Rightarrow> Some found)"
proof (induction pubkeys)
  case Nil
  then show ?case by simp
next
  case (Cons pubkey later)
  then show ?case by (cases "later = []") (auto split: list.splits)
qed

lemma scan_pubkeys_exhausted:
  "pubkeys \<noteq> [] \<Longrightarrow> \<forall>pubkey\<in>set pubkeys. \<not> v pubkey \<Longrightarrow>
     scan_pubkeys (\<lambda>pubkey. Inr (v pubkey)) pubkeys = Inr None"
proof (induction pubkeys)
  case Nil
  then show ?case by simp
next
  case (Cons pubkey later)
  then show ?case by (cases "later = []") simp_all
qed

lemma match_signatures_exhausted:
  "pubkeys \<noteq> [] \<Longrightarrow> \<forall>pubkey\<in>set pubkeys. \<not> v signature pubkey \<Longrightarrow>
     match_signatures (\<lambda>signature pubkey. Inr (v signature pubkey)) (signature # signatures) pubkeys
       = Inr False"
  by (simp add: scan_pubkeys_exhausted)

lemma match_signatures_found:
  "\<forall>pubkey\<in>set earlier. \<not> v signature pubkey \<Longrightarrow> v signature pubkey \<Longrightarrow>
     match_signatures (\<lambda>signature pubkey. Inr (v signature pubkey)) (signature # signatures)
         (earlier @ pubkey # later)
       = match_signatures (\<lambda>signature pubkey. Inr (v signature pubkey)) signatures
           (pubkey # later)"
  by (simp add: scan_pubkeys_dropWhile dropWhile_append3 split: list.splits)

text \<open>
  C5. With a list of public keys that is not empty, the matching loop does what the claim
  says: it fails when the keys are exhausted before a signature finds one that verifies
  it (\<open>match_signatures_exhausted\<close>), it goes on with the next signature from the key
  that verified (\<open>match_signatures_found\<close>), and the operation pops the two counted
  sections and nothing else (\<open>op_checkmultisigverify_pops\<close>). With no public key and
  at least one signature the keys are exhausted at once and the claim says that the
  operation fails. The code at such a stack (two signatures, the count 2, the count 0):
\<close>

theorem checkmultisigverify_no_pubkeys_fault:
  "op_checkmultisigverify example_collaborators example_tx 0
     \<lparr>operations = [\<lparr>code = opcode_checkmultisigverify, data = []\<rparr>],
      stack = [[0x30, 0x01], [0x31, 0x01], [0x02], []],
      alternate_stack = [], conditional_stack = [], codehash_begin = 0\<rparr>
   = Inl Out_of_range"
  by (simp add: op_checkmultisigverify_def read_section_def pop_stack_def cast_to_big_number_def
        big_number_set_data_def big_number_data_def big_number_uint32_def le_magnitude.simps)


lemma run_example_no_pubkeys:
  "run example_collaborators
     \<lparr>operations = [\<lparr>code = opcode_checkmultisig, data = []\<rparr>], stack = [],
      alternate_stack = [], conditional_stack = [], codehash_begin = 0\<rparr>
     \<lparr>operations = [\<lparr>code = opcode_special, data = [0x30, 0x01]\<rparr>,
                    \<lparr>code = opcode_op_1, data = []\<rparr>, \<lparr>code = opcode_zero, data = []\<rparr>],
      stack = [], alternate_stack = [], conditional_stack = [], codehash_begin = 0\<rparr>
     example_tx 0 True
   = Inl Out_of_range"
  by (simp add: run_def run_script_def next_step_def opcode_is_disabled_def
        is_condition_opcode_def has_failed_branches_def run_operation_def op_x_def
        push_stack_def closed_def upt_rec op_checkmultisig_def op_checkmultisigverify_def
        read_section_def pop_stack_def cast_to_big_number_def big_number_set_data_def
        big_number_data_def big_number_uint32_def le_magnitude.simps)

text \<open>
  C10. When \<open>op_checkmultisigverify\<close> (and so \<open>op_checkmultisig\<close>) reads an empty section of
  public keys and then a section of at least one signature, the matching loop
  dereferences the iterator at the end of the empty list before any comparison with
  \<open>pubkeys.end()\<close>: the result is the fault \<open>Out_of_range\<close>. The fault is reached from
  the public \<open>run\<close>, with the input script \<open><sig> 1 0\<close> and the output script
  \<open>checkmultisig\<close>.
\<close>

theorem checkmultisig_no_pubkeys_out_of_range:
  "(read_section s = (Some [], t) \<and> read_section t = (Some signatures, u) \<and> signatures \<noteq> []
      \<longrightarrow> op_checkmultisigverify E parent_tx input_index s = Inl Out_of_range
          \<and> op_checkmultisig E parent_tx input_index s = Inl Out_of_range)
   \<and> run example_collaborators
       \<lparr>operations = [\<lparr>code = opcode_checkmultisig, data = []\<rparr>], stack = [],
        alternate_stack = [], conditional_stack = [], codehash_begin = 0\<rparr>
       \<lparr>operations = [\<lparr>code = opcode_special, data = [0x30, 0x01]\<rparr>,
                      \<lparr>code = opcode_op_1, data = []\<rparr>, \<lparr>code = opcode_zero, data = []\<rparr>],
        stack = [], alternate_stack = [], conditional_stack = [], codehash_begin = 0\<rparr>
       example_tx 0 True
     = Inl Out_of_range"
  using op_checkmultisigverify_no_pubkeys [of s t signatures u E parent_tx input_index]
    run_example_no_pubkeys
  by (simp add: op_checkmultisig_def)

theorem checkmultisig_no_pubkeys_out_of_range_witness:
  "op_checkmultisig example_collaborators example_tx 0
     \<lparr>operations = [\<lparr>code = opcode_checkmultisig, data = []\<rparr>],
      stack = [[0x30, 0x01], [0x01], []],
      alternate_stack = [], conditional_stack = [], codehash_begin = 0\<rparr>
   = Inl Out_of_range"
    (is "op_checkmultisig _ _ _ ?S = _")
proof -
  let ?T = "?S\<lparr>stack := [[0x30, 0x01], [0x01]]\<rparr>"
  let ?U = "?S\<lparr>stack := []\<rparr>"
  have a: "read_section ?S = (Some [], ?T)"
    by (simp add: read_section_def pop_stack_def cast_to_big_number_def
        big_number_set_data_def big_number_data_def big_number_uint32_def)
  have b: "read_section ?T = (Some [[0x30, 0x01]], ?U)"
    by (simp add: read_section_def pop_stack_def cast_to_big_number_def
        big_number_set_data_def big_number_data_def big_number_uint32_def le_magnitude.simps)
  have c: "[[0x30, 0x01 :: byte]] \<noteq> []" by simp
  show ?thesis
    using checkmultisig_no_pubkeys_out_of_range [where s = ?S and t = ?T and u = ?U
        and signatures = "[[0x30, 0x01]]" and E = example_collaborators
        and parent_tx = example_tx and input_index = 0] a b c
    by blast
qed

end
